theory Spec2Isabelle
  imports Complex_Main
begin

text \<open>
  A model of the numerical-methods calculator: the expression evaluator of the base class
  \<open>NumericalMethod\<close> and the eight methods built on it (Bisection, Newton-Raphson,
  Fixed-Point, Gauss-Seidel, Gauss-Jacobi, Lagrange, Differentiation, Integration), followed
  by the properties of the specification that were checked against it.

  Each \<open>validateParams\<close> and \<open>calculate\<close> is a function of the same name. A parameter
  object is a record whose fields have the types the interface gives them: texts are
  strings, numbers are JavaScript numbers, arrays are lists, and the iteration budget
  \<open>maxIterations\<close> is an integer. A \<open>throw\<close> is a value, the logger's warnings are a
  list, and every \<open>while\<close> and \<open>for\<close> loop is a recursive function.
\<close>

section \<open>JavaScript numbers\<close>

text \<open>
  The methods compute with JavaScript numbers. The model keeps the finite values as exact
  reals and adds the three special values; rounding, overflow and the sign of zero are not
  represented (a zero divisor is read as \<open>+0\<close>). Comparisons with \<open>NaN\<close> are false, as in
  the language.
\<close>

datatype jsnum = Fin real | PInf | NInf | NaN

fun js_neg :: "jsnum \<Rightarrow> jsnum" where
  "js_neg (Fin a) = Fin (- a)"
| "js_neg PInf = NInf"
| "js_neg NInf = PInf"
| "js_neg NaN = NaN"

fun js_add :: "jsnum \<Rightarrow> jsnum \<Rightarrow> jsnum" where
  "js_add (Fin a) (Fin b) = Fin (a + b)"
| "js_add NaN _ = NaN"
| "js_add _ NaN = NaN"
| "js_add PInf NInf = NaN"
| "js_add NInf PInf = NaN"
| "js_add PInf _ = PInf"
| "js_add _ PInf = PInf"
| "js_add NInf _ = NInf"
| "js_add _ NInf = NInf"

definition js_sub :: "jsnum \<Rightarrow> jsnum \<Rightarrow> jsnum" where
  "js_sub u v = js_add u (js_neg v)"

definition signed_inf :: "bool \<Rightarrow> jsnum" where
  "signed_inf positive = (if positive then PInf else NInf)"

fun js_mul :: "jsnum \<Rightarrow> jsnum \<Rightarrow> jsnum" where
  "js_mul (Fin a) (Fin b) = Fin (a * b)"
| "js_mul NaN _ = NaN"
| "js_mul _ NaN = NaN"
| "js_mul PInf (Fin b) = (if b = 0 then NaN else signed_inf (0 < b))"
| "js_mul NInf (Fin b) = (if b = 0 then NaN else signed_inf (b < 0))"
| "js_mul (Fin a) PInf = (if a = 0 then NaN else signed_inf (0 < a))"
| "js_mul (Fin a) NInf = (if a = 0 then NaN else signed_inf (a < 0))"
| "js_mul PInf PInf = PInf"
| "js_mul NInf NInf = PInf"
| "js_mul PInf NInf = NInf"
| "js_mul NInf PInf = NInf"

fun js_div :: "jsnum \<Rightarrow> jsnum \<Rightarrow> jsnum" where
  "js_div (Fin a) (Fin b) =
     (if b = 0 then (if a = 0 then NaN else signed_inf (0 < a)) else Fin (a / b))"
| "js_div NaN _ = NaN"
| "js_div _ NaN = NaN"
| "js_div (Fin a) _ = Fin 0"
| "js_div PInf (Fin b) = signed_inf (0 \<le> b)"
| "js_div NInf (Fin b) = signed_inf (b < 0)"
| "js_div PInf _ = NaN"
| "js_div NInf _ = NaN"

fun js_abs :: "jsnum \<Rightarrow> jsnum" where
  "js_abs (Fin a) = Fin \<bar>a\<bar>"
| "js_abs PInf = PInf"
| "js_abs NInf = PInf"
| "js_abs NaN = NaN"

fun js_lt :: "jsnum \<Rightarrow> jsnum \<Rightarrow> bool" where
  "js_lt (Fin a) (Fin b) = (a < b)"
| "js_lt NaN _ = False"
| "js_lt _ NaN = False"
| "js_lt NInf NInf = False"
| "js_lt NInf _ = True"
| "js_lt _ NInf = False"
| "js_lt PInf _ = False"
| "js_lt _ PInf = True"

definition js_gt :: "jsnum \<Rightarrow> jsnum \<Rightarrow> bool" where
  "js_gt u v = js_lt v u"

definition js_le :: "jsnum \<Rightarrow> jsnum \<Rightarrow> bool" where
  "js_le u v = (u \<noteq> NaN \<and> v \<noteq> NaN \<and> (js_lt u v \<or> u = v))"

definition js_ge :: "jsnum \<Rightarrow> jsnum \<Rightarrow> bool" where
  "js_ge u v = js_le v u"

definition isNaN :: "jsnum \<Rightarrow> bool" where
  "isNaN u = (u = NaN)"

text \<open>\<open>!v\<close> on a number: zero and \<open>NaN\<close> are falsy.\<close>

definition js_not :: "jsnum \<Rightarrow> bool" where
  "js_not u = (u = Fin 0 \<or> u = NaN)"



fun Math_sqrt :: "jsnum \<Rightarrow> jsnum" where
  "Math_sqrt (Fin a) = (if a < 0 then NaN else Fin (sqrt a))"
| "Math_sqrt PInf = PInf"
| "Math_sqrt _ = NaN"


fun Number_isInteger :: "jsnum \<Rightarrow> bool" where
  "Number_isInteger (Fin a) = (of_int \<lfloor>a\<rfloor> = a)"
| "Number_isInteger _ = False"


section \<open>Errors and the log\<close>

text \<open>
  Every \<open>throw new Error(message)\<close> of the repository is one constructor; the message it
  carries is given beside it (accents dropped).
\<close>

datatype error =
    InvalidFunction            \<comment> \<open>"Funcion invalida"\<close>
  | EmptyFunction              \<comment> \<open>"La funcion ... no puede estar vacia"\<close>
  | InvalidBounds              \<comment> \<open>"Los limites ... deben ser numeros validos"\<close>
  | LowerNotBelowUpper         \<comment> \<open>"El limite inferior debe ser menor que el superior"\<close>
  | InvalidInitialValue        \<comment> \<open>"El valor inicial debe ser un numero valido"\<close>
  | NonPositiveTolerance       \<comment> \<open>"La tolerancia debe ser mayor que cero"\<close>
  | NonPositiveMaxIterations   \<comment> \<open>"El numero maximo de iteraciones debe ser mayor que cero"\<close>
  | SameSigns                  \<comment> \<open>"f(a) y f(b) deben tener signos opuestos"\<close>
  | ConstAssignment            \<comment> \<open>the language's TypeError: assignment to a \<open>const\<close> binding\<close>
  | DerivativeError            \<comment> \<open>"Error al calcular la derivada"\<close>
  | DerivativeTooSmall         \<comment> \<open>"La derivada es muy pequena, el metodo puede no converger"\<close>
  | Diverges                   \<comment> \<open>"El metodo diverge con el valor inicial dado"\<close>
  | NotSquare                  \<comment> \<open>"La matriz debe ser cuadrada"\<close>
  | VectorSize                 \<comment> \<open>"El vector de terminos independientes debe tener el mismo tamano ..."\<close>
  | InitialGuessSize           \<comment> \<open>"El vector inicial debe tener el mismo tamano que la matriz"\<close>
  | ZeroDiagonal nat           \<comment> \<open>"Elemento diagonal (k,k) es cero o muy pequeno"\<close>
  | PointsSize                 \<comment> \<open>"Los arrays de x e y deben tener el mismo tamano"\<close>
  | TooFewPoints               \<comment> \<open>"Se necesitan al menos 2 puntos para la interpolacion"\<close>
  | RepeatedX                  \<comment> \<open>"Los valores de x no pueden estar repetidos"\<close>
  | InvalidPoint nat           \<comment> \<open>"El punto (x, y) contiene valores invalidos"\<close>
  | InvalidEvalPoint           \<comment> \<open>"El punto a evaluar debe ser un numero valido"\<close>
  | InvalidX                   \<comment> \<open>"El punto x debe ser un numero valido"\<close>
  | InvalidStep                \<comment> \<open>"El tamano del paso h debe ser un numero positivo"\<close>
  | InvalidMethod              \<comment> \<open>"El metodo debe ser: forward, backward o central"\<close>
  | NonPositiveSubdivisions    \<comment> \<open>"El numero de subdivisiones debe ser mayor que cero"\<close>
  | NonIntegerSubdivisions     \<comment> \<open>"El numero de subdivisiones debe ser un entero"\<close>

text \<open>
  The logger is an external sink. The model keeps the \<open>warning\<close> events, in the order
  they are emitted; \<open>info\<close>, \<open>success\<close> and \<open>error\<close> events decide nothing.
\<close>

datatype warning =
    NotDiagonallyDominant nat  \<comment> \<open>"Fila k: La matriz no es estrictamente diagonal dominante"\<close>
  | MightNotConverge           \<comment> \<open>"El metodo podria no converger"\<close>
  | MaxIterationsReached       \<comment> \<open>"Maximo de iteraciones alcanzado sin convergencia"\<close>
  | BestApproximation          \<comment> \<open>"Mejor aproximacion: [...]"\<close>
  | InterpolationError         \<comment> \<open>"Error maximo en la interpolacion: ..."\<close>
  | OutsideInterval            \<comment> \<open>"ADVERTENCIA: x = ... esta fuera del intervalo [min, max]"\<close>
  | Extrapolating              \<comment> \<open>"Se esta realizando extrapolacion, ..."\<close>
  | StepTooLarge               \<comment> \<open>"El tamano del paso h es muy grande, ..."\<close>
  | StepTooSmall               \<comment> \<open>"El tamano del paso h es muy pequeno, ..."\<close>

section \<open>NumericalMethod.evaluateFunction\<close>

text \<open>
  The evaluator rewrites the text and hands it to the host: the template literal renders the
  number, and \<open>Function(body)()\<close> compiles and runs the rewritten text. Both belong to the
  JavaScript engine, not to the repository, so they are the two fields of an engine that
  the evaluator takes as a parameter. A host completion is a number or a throw; hosts
  returning other kinds of value are outside the model.
\<close>

datatype completion = Normal jsnum | Throw

record js_engine =
  ToString :: "jsnum \<Rightarrow> string"
  Function_call :: "string \<Rightarrow> completion"

text \<open>\<open>func.replace(/x/g, `(${x})`)\<close>: every character \<open>x\<close>, wherever it stands.\<close>

definition replace_x :: "string \<Rightarrow> string \<Rightarrow> string" where
  "replace_x v func = concat (map (\<lambda>c. if c = CHR ''x'' then ''('' @ v @ '')'' else [c]) func)"

definition is_digit :: "char \<Rightarrow> bool" where
  "is_digit c = (c \<in> set ''0123456789'')"

text \<open>
  One match of \<open>/\(([^)]+)\)\^(\d+)/\<close> at the head of the text: an opening parenthesis, a
  non-empty run without a closing parenthesis, the closing parenthesis, a caret and a
  non-empty run of digits. The result is the two groups.
\<close>

fun match_pow :: "string \<Rightarrow> (string \<times> string) option" where
  "match_pow [] = None"
| "match_pow (c # cs) =
     (if c = CHR ''('' then
        (case dropWhile (\<lambda>d. d \<noteq> CHR '')'') cs of
           p # q # r \<Rightarrow>
             if takeWhile (\<lambda>d. d \<noteq> CHR '')'') cs \<noteq> [] \<and> q = CHR ''^'' \<and> takeWhile is_digit r \<noteq> []
             then Some (takeWhile (\<lambda>d. d \<noteq> CHR '')'') cs, takeWhile is_digit r)
             else None
         | _ \<Rightarrow> None)
      else None)"

text \<open>
  The global replacement by \<open>Math.pow($1,$2)\<close>, scanning from the left; the counter is the
  number of characters of the last match still to be skipped.
\<close>

fun replace_pow :: "nat \<Rightarrow> string \<Rightarrow> string" where
  "replace_pow k [] = []"
| "replace_pow (Suc k) (c # cs) = replace_pow k cs"
| "replace_pow 0 (c # cs) =
     (case match_pow (c # cs) of
        Some (g1, g2) \<Rightarrow>
          ''Math.pow('' @ g1 @ '','' @ g2 @ '')'' @ replace_pow (Suc (Suc (length g1 + length g2))) cs
      | None \<Rightarrow> c # replace_pow 0 cs)"

text \<open>\<open>s.replace(/name/g, replacement)\<close> for a literal name, with the same counter.\<close>

fun replace_all :: "string \<Rightarrow> string \<Rightarrow> nat \<Rightarrow> string \<Rightarrow> string" where
  "replace_all pat rep k [] = []"
| "replace_all pat rep (Suc k) (c # cs) = replace_all pat rep k cs"
| "replace_all pat rep 0 (c # cs) =
     (if pat \<noteq> [] \<and> take (length pat) (c # cs) = pat
      then rep @ replace_all pat rep (length (tl pat)) cs
      else c # replace_all pat rep 0 cs)"

definition rewrite :: "string \<Rightarrow> string \<Rightarrow> string" where
  "rewrite v func =
     replace_all ''exp'' ''Math.exp'' 0
      (replace_all ''sqrt'' ''Math.sqrt'' 0
        (replace_all ''log'' ''Math.log'' 0
          (replace_all ''tan'' ''Math.tan'' 0
            (replace_all ''cos'' ''Math.cos'' 0
              (replace_all ''sin'' ''Math.sin'' 0
                (replace_pow 0 (replace_x v func)))))))"

definition function_body :: "string \<Rightarrow> string" where
  \<open>function_body expression = ''"use strict"; return ('' @ expression @ '')''\<close>

definition evaluateFunction :: "js_engine \<Rightarrow> string \<Rightarrow> jsnum \<Rightarrow> error + jsnum" where
  "evaluateFunction eng func x =
     (case Function_call eng (function_body (rewrite (ToString eng x) func)) of
        Normal v \<Rightarrow> Inr v
      | Throw \<Rightarrow> Inl InvalidFunction)"


section \<open>A reference engine for the arithmetic fragment\<close>

text \<open>
  What an ECMAScript engine does on a small fragment, written out so that the evaluator
  can be run on concrete texts. \<open>number_text\<close> renders a number as the template literal
  does, and \<open>run_body\<close> compiles and runs a body of the form
  \<open>"use strict"; return (e)\<close> where \<open>e\<close> is built from decimal literals, parentheses,
  unary and binary \<open>+ - * /\<close> and calls of \<open>Math.pow/sin/cos/tan/log/sqrt/exp/abs\<close>.
  Both answer \<open>None\<close> wherever the fragment ends: the answer \<open>Some Throw\<close> is given only
  for a text that consists of the fragment's tokens and that no ECMAScript parser accepts.
\<close>

definition digit_char :: "nat \<Rightarrow> char" where
  "digit_char d = ''0123456789'' ! d"

function digits_of :: "nat \<Rightarrow> string" where
  "digits_of n =
     (if n < 10 then [digit_char n] else digits_of (n div 10) @ [digit_char (n mod 10)])"
  by pat_completeness auto
termination
  by (relation "measure (\<lambda>n. n)") auto

declare digits_of.simps [simp del]

text \<open>
  A positive number in plain decimal notation: an integer below \<open>10^21\<close>, or a number
  below \<open>10^9\<close> with at most six decimal places (the engine switches to exponent
  notation below \<open>10^-6\<close> and from \<open>10^21\<close> on).
\<close>

definition six_places :: "nat \<Rightarrow> string" where
  "six_places m =
     rev (dropWhile (\<lambda>c. c = CHR ''0'') (rev (drop (length (digits_of m)) ''000000'' @ digits_of m)))"

definition positive_text :: "real \<Rightarrow> string option" where
  "positive_text r =
     (if r < 1 / 10 ^ 6 \<or> 10 ^ 21 \<le> r then None
      else if of_int \<lfloor>r\<rfloor> = r then Some (digits_of (nat \<lfloor>r\<rfloor>))
      else if 10 ^ 9 \<le> r \<or> of_int \<lfloor>r * 10 ^ 6\<rfloor> \<noteq> r * 10 ^ 6 then None
      else Some (digits_of (nat \<lfloor>r\<rfloor>) @ ''.'' @ six_places (nat \<lfloor>r * 10 ^ 6\<rfloor> mod 10 ^ 6)))"

fun number_text :: "jsnum \<Rightarrow> string option" where
  "number_text NaN = Some ''NaN''"
| "number_text PInf = Some ''Infinity''"
| "number_text NInf = Some ''-Infinity''"
| "number_text (Fin r) =
     (if r = 0 then Some ''0''
      else if r < 0 then map_option (\<lambda>t. ''-'' @ t) (positive_text (- r))
      else positive_text r)"

datatype token =
    TNum real | TLParen | TRParen | TPlus | TMinus | TStar | TSlash | TComma | TMember string

definition is_ident :: "char \<Rightarrow> bool" where
  "is_ident c =
     (c \<in> set ''abcdefghijklmnopqrstuvwxyzABCDEFGHIJKLMNOPQRSTUVWXYZ0123456789_$'')"

fun digits_value :: "nat \<Rightarrow> string \<Rightarrow> nat" where
  "digits_value acc [] = acc"
| "digits_value acc (d # ds) =
     digits_value (10 * acc + length (takeWhile (\<lambda>e. e \<noteq> d) ''0123456789'')) ds"

definition literal_end :: "string \<Rightarrow> bool" where
  "literal_end r = (case r of [] \<Rightarrow> True | d # _ \<Rightarrow> \<not> is_ident d \<and> d \<noteq> CHR ''.'')"

definition next_is :: "char \<Rightarrow> string \<Rightarrow> bool" where
  "next_is c r = (case r of [] \<Rightarrow> False | d # _ \<Rightarrow> d = c)"

definition member_names :: "string list" where
  "member_names =
     [''pow'', ''sin'', ''cos'', ''tan'', ''log'', ''sqrt'', ''exp'', ''abs'', ''PI'']"

definition cons_token :: "token \<Rightarrow> token list option \<Rightarrow> token list option" where
  "cons_token t r = map_option ((#) t) r"

fun tokens :: "nat \<Rightarrow> string \<Rightarrow> token list option" where
  "tokens fuel [] = Some []"
| "tokens 0 (c # cs) = None"
| "tokens (Suc fuel) (c # cs) =
     (if c = CHR '' '' then tokens fuel cs
      else if c = CHR ''('' then cons_token TLParen (tokens fuel cs)
      else if c = CHR '')'' then cons_token TRParen (tokens fuel cs)
      else if c = CHR '','' then cons_token TComma (tokens fuel cs)
      else if c = CHR ''+'' then
        (if next_is CHR ''+'' cs then None else cons_token TPlus (tokens fuel cs))
      else if c = CHR ''-'' then
        (if next_is CHR ''-'' cs then None else cons_token TMinus (tokens fuel cs))
      else if c = CHR ''*'' then
        (if next_is CHR ''*'' cs then None else cons_token TStar (tokens fuel cs))
      else if c = CHR ''/'' then
        (if next_is CHR ''/'' cs \<or> next_is CHR ''*'' cs then None
         else cons_token TSlash (tokens fuel cs))
      else if is_digit c then
        (let whole = c # takeWhile is_digit cs; r = dropWhile is_digit cs
         in if 1 < length whole \<and> c = CHR ''0'' then None
            else if next_is CHR ''.'' r then
              (let frac = takeWhile is_digit (tl r); r' = dropWhile is_digit (tl r)
               in if frac = [] \<or> \<not> literal_end r' then None
                  else cons_token
                         (TNum (of_nat (digits_value 0 whole)
                                + of_nat (digits_value 0 frac) / 10 ^ length frac))
                         (tokens fuel r'))
            else if \<not> literal_end r then None
            else cons_token (TNum (of_nat (digits_value 0 whole))) (tokens fuel r))
      else if c # takeWhile is_ident cs = ''Math'' \<and> next_is CHR ''.'' (dropWhile is_ident cs) then
        (let r = tl (dropWhile is_ident cs); m = takeWhile is_ident r; r' = dropWhile is_ident r
         in if m \<in> set member_names \<and> \<not> next_is CHR ''.'' r'
            then cons_token (TMember m) (tokens fuel r') else None)
      else None)"


text \<open>
  The parser evaluates while it reads. \<open>PSyntax\<close> is a text no parser accepts,
  \<open>PBeyond\<close> a construct outside the fragment (a call of something that is not one of the
  listed functions, a regular-expression literal, the comma operator, a function used as a
  value, a power with an exponent that is not a natural number, a division by zero, whose
  result depends on the sign of the zero) or exhausted fuel.
\<close>

datatype presult = POk jsnum "token list" | PSyntax | PBeyond

fun Math_pow :: "jsnum \<Rightarrow> jsnum \<Rightarrow> jsnum option" where
  "Math_pow (Fin a) (Fin b) =
     (if 0 \<le> b \<and> of_int \<lfloor>b\<rfloor> = b then Some (Fin (a ^ nat \<lfloor>b\<rfloor>)) else None)"
| "Math_pow _ _ = None"

fun Math_sin :: "jsnum \<Rightarrow> jsnum" where
  "Math_sin (Fin a) = Fin (sin a)"
| "Math_sin _ = NaN"

fun Math_cos :: "jsnum \<Rightarrow> jsnum" where
  "Math_cos (Fin a) = Fin (cos a)"
| "Math_cos _ = NaN"

fun Math_tan :: "jsnum \<Rightarrow> jsnum option" where
  "Math_tan (Fin a) = (if cos a = 0 then None else Some (Fin (tan a)))"
| "Math_tan _ = Some NaN"

fun Math_log :: "jsnum \<Rightarrow> jsnum" where
  "Math_log (Fin a) = (if 0 < a then Fin (ln a) else if a = 0 then NInf else NaN)"
| "Math_log PInf = PInf"
| "Math_log _ = NaN"

fun Math_exp :: "jsnum \<Rightarrow> jsnum" where
  "Math_exp (Fin a) = Fin (exp a)"
| "Math_exp PInf = PInf"
| "Math_exp NInf = Fin 0"
| "Math_exp NaN = NaN"

definition call1 :: "string \<Rightarrow> jsnum \<Rightarrow> jsnum option" where
  "call1 m v =
     (if m = ''sin'' then Some (Math_sin v)
      else if m = ''cos'' then Some (Math_cos v)
      else if m = ''tan'' then Math_tan v
      else if m = ''log'' then Some (Math_log v)
      else if m = ''sqrt'' then Some (Math_sqrt v)
      else if m = ''exp'' then Some (Math_exp v)
      else if m = ''abs'' then Some (js_abs v)
      else None)"

text \<open>
  What may follow a complete operand: a closing parenthesis ends a group; a literal or a
  name there is a syntax error; an opening parenthesis would be a call, a comma the comma
  operator or a further argument.
\<close>

definition close_group :: "presult \<Rightarrow> presult" where
  "close_group e =
     (case e of
        POk v ts \<Rightarrow>
          (case ts of
             [] \<Rightarrow> PSyntax
           | t # r \<Rightarrow>
               (case t of
                  TRParen \<Rightarrow> POk v r
                | TNum _ \<Rightarrow> PSyntax
                | TMember _ \<Rightarrow> PSyntax
                | _ \<Rightarrow> PBeyond))
      | _ \<Rightarrow> e)"

definition no_call :: "presult \<Rightarrow> presult" where
  "no_call e =
     (case e of
        POk v ts \<Rightarrow> (case ts of [] \<Rightarrow> e | t # r \<Rightarrow> (case t of TLParen \<Rightarrow> PBeyond | _ \<Rightarrow> e))
      | _ \<Rightarrow> e)"

definition apply1 :: "string \<Rightarrow> presult \<Rightarrow> presult" where
  "apply1 m e =
     (case e of
        POk v r \<Rightarrow> (case call1 m v of Some w \<Rightarrow> POk w r | None \<Rightarrow> PBeyond)
      | _ \<Rightarrow> e)"

definition apply2 :: "jsnum \<Rightarrow> presult \<Rightarrow> presult" where
  "apply2 v e =
     (case e of
        POk w r \<Rightarrow> (case Math_pow v w of Some u \<Rightarrow> POk u r | None \<Rightarrow> PBeyond)
      | _ \<Rightarrow> e)"

definition head_is :: "token \<Rightarrow> token list \<Rightarrow> bool" where
  "head_is t ts = (case ts of [] \<Rightarrow> False | u # _ \<Rightarrow> u = t)"

fun parse_primary :: "nat \<Rightarrow> token list \<Rightarrow> presult"
  and parse_unary :: "nat \<Rightarrow> token list \<Rightarrow> presult"
  and parse_mul :: "nat \<Rightarrow> presult \<Rightarrow> presult"
  and parse_add :: "nat \<Rightarrow> presult \<Rightarrow> presult"
  and parse_expr :: "nat \<Rightarrow> token list \<Rightarrow> presult"
where
  "parse_primary 0 ts = PBeyond"
| "parse_primary (Suc n) ts =
     (case ts of
        [] \<Rightarrow> PSyntax
      | t # r \<Rightarrow>
          (case t of
             TNum a \<Rightarrow> no_call (POk (Fin a) r)
           | TLParen \<Rightarrow> no_call (close_group (parse_expr n r))
           | TMember m \<Rightarrow>
               (if m = ''PI'' then no_call (POk (Fin pi) r)
                else if \<not> head_is TLParen r \<or> head_is TRParen (tl r) then PBeyond
                else if m = ''pow'' then
                  (case parse_expr n (tl r) of
                     POk v r' \<Rightarrow>
                       (if head_is TComma r' \<and> \<not> head_is TRParen (tl r')
                        then no_call (apply2 v (close_group (parse_expr n (tl r'))))
                        else if head_is TComma r' \<or> head_is TRParen r' then PBeyond
                        else close_group (POk v r'))
                   | e \<Rightarrow> e)
                else no_call (apply1 m (close_group (parse_expr n (tl r)))))
           | TSlash \<Rightarrow> PBeyond
           | _ \<Rightarrow> PSyntax))"
| "parse_unary 0 ts = PBeyond"
| "parse_unary (Suc n) ts =
     (if head_is TMinus ts then
        (case parse_unary n (tl ts) of POk v r \<Rightarrow> POk (js_neg v) r | e \<Rightarrow> e)
      else if head_is TPlus ts then parse_unary n (tl ts)
      else parse_primary n ts)"
| "parse_mul 0 e = PBeyond"
| "parse_mul (Suc n) e =
     (case e of
        POk v ts \<Rightarrow>
          (if head_is TStar ts then
             (case parse_unary n (tl ts) of
                POk w r \<Rightarrow> parse_mul n (POk (js_mul v w) r) | e' \<Rightarrow> e')
           else if head_is TSlash ts then
             (case parse_unary n (tl ts) of
                POk w r \<Rightarrow> if w = Fin 0 then PBeyond else parse_mul n (POk (js_div v w) r)
              | e' \<Rightarrow> e')
           else e)
      | _ \<Rightarrow> e)"
| "parse_add 0 e = PBeyond"
| "parse_add (Suc n) e =
     (case e of
        POk v ts \<Rightarrow>
          (if head_is TPlus ts then
             (case parse_mul n (parse_unary n (tl ts)) of
                POk w r \<Rightarrow> parse_add n (POk (js_add v w) r) | e' \<Rightarrow> e')
           else if head_is TMinus ts then
             (case parse_mul n (parse_unary n (tl ts)) of
                POk w r \<Rightarrow> parse_add n (POk (js_sub v w) r) | e' \<Rightarrow> e')
           else e)
      | _ \<Rightarrow> e)"
| "parse_expr 0 ts = PBeyond"
| "parse_expr (Suc n) ts = parse_add n (parse_mul n (parse_unary n ts))"

definition top_level :: "presult \<Rightarrow> completion option" where
  "top_level e =
     (case e of
        POk v ts \<Rightarrow>
          (case ts of
             [] \<Rightarrow> Some (Normal v)
           | t # r \<Rightarrow>
               (case t of
                  TRParen \<Rightarrow> Some Throw
                | TNum _ \<Rightarrow> Some Throw
                | TMember _ \<Rightarrow> Some Throw
                | _ \<Rightarrow> None))
      | PSyntax \<Rightarrow> Some Throw
      | PBeyond \<Rightarrow> None)"

definition return_prefix :: string where
  \<open>return_prefix = ''"use strict"; return ''\<close>

text \<open>Four steps of the parser for every token, and four more.\<close>

fun fuel_of :: "token list \<Rightarrow> nat" where
  "fuel_of [] = Suc (Suc (Suc (Suc 0)))"
| "fuel_of (t # ts) = Suc (Suc (Suc (Suc (fuel_of ts))))"

definition run_body :: "string \<Rightarrow> completion option" where
  "run_body body =
     (if take (length return_prefix) body = return_prefix then
        (case tokens (length body) (drop (length return_prefix) body) of
           None \<Rightarrow> None
         | Some ts \<Rightarrow> top_level (parse_expr (fuel_of ts) ts))
      else None)"

text \<open>
  An engine agrees with the fragment at an input of the evaluator when the fragment answers
  there, both for the text of the number and for the rewritten body, and the engine gives the
  same two answers. The fragment computes with exact reals, so it coincides with a
  floating-point engine where the values involved are exactly representable, as small
  integers and halves are.

  \<open>reference_engine\<close> follows the fragment wherever it answers; elsewhere it is arbitrary
  (it renders the empty text and throws), and nothing below depends on its answers there.
\<close>

definition agrees_at :: "js_engine \<Rightarrow> string \<Rightarrow> jsnum \<Rightarrow> bool" where
  "agrees_at eng func x =
     (case number_text x of
        None \<Rightarrow> False
      | Some t \<Rightarrow>
          ToString eng x = t \<and>
          (case run_body (function_body (rewrite t func)) of
             None \<Rightarrow> False
           | Some c \<Rightarrow> Function_call eng (function_body (rewrite t func)) = c))"

definition reference_engine :: js_engine where
  "reference_engine =
     \<lparr> ToString = (\<lambda>v. case number_text v of Some t \<Rightarrow> t | None \<Rightarrow> []),
       Function_call = (\<lambda>body. case run_body body of Some c \<Rightarrow> c | None \<Rightarrow> Throw) \<rparr>"

section \<open>The method contract\<close>

text \<open>
  A method instance owns \<open>this.iterations\<close> and \<open>this.result\<close> (\<open>null\<close> is \<open>None\<close>).
  \<open>calculate\<close> is modelled as a function from the instance before the call to a run: the
  error thrown, if any, the warnings logged, and the instance after the call.
\<close>

record ('it, 'r) numerical_method =
  iterations :: "'it list"
  result :: "'r option"

definition fresh :: "('it, 'r) numerical_method" where
  "fresh = \<lparr> iterations = [], result = None \<rparr>"


record ('it, 'r) run =
  thrown :: "error option"
  warnings :: "warning list"
  final :: "('it, 'r) numerical_method"

definition throws :: "error \<Rightarrow> warning list \<Rightarrow> ('it, 'r) numerical_method \<Rightarrow> ('it, 'r) run" where
  "throws e ws this = \<lparr> thrown = Some e, warnings = ws, final = this \<rparr>"

definition returns :: "warning list \<Rightarrow> ('it, 'r) numerical_method \<Rightarrow> ('it, 'r) run" where
  "returns ws this = \<lparr> thrown = None, warnings = ws, final = this \<rparr>"

text \<open>\<open>!this.result\<close> for a scalar result: \<open>null\<close>, zero and \<open>NaN\<close> are falsy.\<close>

definition no_result :: "jsnum option \<Rightarrow> bool" where
  "no_result r = (case r of None \<Rightarrow> True | Some v \<Rightarrow> js_not v)"

text \<open>
  \<open>!params.function || params.function.trim() === ''\<close>: the text is empty or consists of
  white space (the six ASCII white-space characters; texts are byte strings here).
\<close>

definition is_blank :: "string \<Rightarrow> bool" where
  "is_blank s = list_all (\<lambda>c. c \<in> set [CHR '' '', CHR 0x09, CHR 0x0A, CHR 0x0B, CHR 0x0C, CHR 0x0D]) s"

text \<open>\<open>parseFloat\<close> of a number renders it and reads it back: the same number.\<close>

definition parseFloat :: "jsnum \<Rightarrow> jsnum" where
  "parseFloat v = v"

text \<open>An assignment to a binding declared with \<open>const\<close> throws and assigns nothing.\<close>

definition assign_const :: "jsnum \<Rightarrow> jsnum \<Rightarrow> error + jsnum" where
  "assign_const binding v = Inl ConstAssignment"

type_synonym evaluator = "string \<Rightarrow> jsnum \<Rightarrow> error + jsnum"

section \<open>BisectionMethod\<close>

record bisection_params =
  bis_function :: string
  bis_a :: jsnum
  bis_b :: jsnum
  bis_tolerance :: jsnum
  bis_maxIterations :: int

record bisection_iteration =
  bi_iteration :: int
  bi_a :: jsnum
  bi_b :: jsnum
  bi_c :: jsnum
  bi_fc :: jsnum
  bi_error :: jsnum

type_synonym bisection = "(bisection_iteration, jsnum) numerical_method"

definition Bisection_validateParams :: "bisection_params \<Rightarrow> error option" where
  "Bisection_validateParams params =
     (if is_blank (bis_function params) then Some EmptyFunction
      else if isNaN (bis_a params) \<or> isNaN (bis_b params) then Some InvalidBounds
      else if js_ge (bis_a params) (bis_b params) then Some LowerNotBelowUpper
      else if js_le (bis_tolerance params) (Fin 0) then Some NonPositiveTolerance
      else if bis_maxIterations params \<le> 0 then Some NonPositiveMaxIterations
      else None)"

text \<open>The statements after the loop: \<open>if (!this.result) { warning; result = (aVal + bVal) / 2 }\<close>.\<close>

definition Bisection_finish :: "jsnum \<Rightarrow> jsnum \<Rightarrow> bisection \<Rightarrow> (bisection_iteration, jsnum) run" where
  "Bisection_finish aVal bVal this =
     (if no_result (result this)
      then returns [MaxIterationsReached] (this\<lparr> result := Some (js_div (js_add aVal bVal) (Fin 2)) \<rparr>)
      else returns [] this)"

text \<open>
  The \<open>while (iter < maxIterations)\<close> loop. \<open>fa\<close> and \<open>fb\<close> are declared with \<open>const\<close>
  before the loop, and both branches of the narrowing step assign to one of them.
\<close>

function Bisection_loop ::
  "evaluator \<Rightarrow> string \<Rightarrow> jsnum \<Rightarrow> int \<Rightarrow> jsnum \<Rightarrow> jsnum \<Rightarrow> jsnum \<Rightarrow> jsnum \<Rightarrow> int \<Rightarrow> bisection
     \<Rightarrow> (bisection_iteration, jsnum) run" where
  "Bisection_loop ev func tolerance maxIterations fa fb aVal bVal iter this =
     (if iter < maxIterations then
        (let c = js_div (js_add aVal bVal) (Fin 2) in
         case ev func c of
           Inl e \<Rightarrow> throws e [] this
         | Inr fc \<Rightarrow>
             (let error = js_div (js_abs (js_sub bVal aVal)) (Fin 2);
                  this' = this\<lparr> iterations := iterations this @
                            [\<lparr> bi_iteration = iter + 1, bi_a = aVal, bi_b = bVal, bi_c = c,
                               bi_fc = fc, bi_error = error \<rparr>] \<rparr>
              in if js_lt (js_abs fc) tolerance \<or> js_lt error tolerance
                 then Bisection_finish aVal bVal (this'\<lparr> result := Some c \<rparr>)
                 else if js_lt (js_mul fa fc) (Fin 0) then
                   (case assign_const fb fc of
                      Inl e \<Rightarrow> throws e [] this'
                    | Inr fb' \<Rightarrow>
                        Bisection_loop ev func tolerance maxIterations fa fb' aVal c (iter + 1) this')
                 else
                   (case assign_const fa fc of
                      Inl e \<Rightarrow> throws e [] this'
                    | Inr fa' \<Rightarrow>
                        Bisection_loop ev func tolerance maxIterations fa' fb c bVal (iter + 1) this')))
      else Bisection_finish aVal bVal this)"
  by pat_completeness auto
termination
  by (relation "measure (\<lambda>(ev, func, tolerance, maxIterations, fa, fb, aVal, bVal, iter, this).
        nat (maxIterations - iter))") auto

declare Bisection_loop.simps [simp del]

definition Bisection_calculate :: "evaluator \<Rightarrow> bisection_params \<Rightarrow> bisection \<Rightarrow> (bisection_iteration, jsnum) run" where
  "Bisection_calculate ev params this =
     (case Bisection_validateParams params of
        Some e \<Rightarrow> throws e [] this
      | None \<Rightarrow>
          (let func = bis_function params;
               aVal = parseFloat (bis_a params);
               bVal = parseFloat (bis_b params)
           in case ev func aVal of
                Inl e \<Rightarrow> throws e [] this
              | Inr fa \<Rightarrow>
                  (case ev func bVal of
                     Inl e \<Rightarrow> throws e [] this
                   | Inr fb \<Rightarrow>
                       if js_gt (js_mul fa fb) (Fin 0) then throws SameSigns [] this
                       else Bisection_loop ev func (bis_tolerance params) (bis_maxIterations params)
                              fa fb aVal bVal 0 (this\<lparr> iterations := [], result := None \<rparr>))))"

section \<open>NewtonMethod\<close>










section \<open>FixedPointMethod\<close>








section \<open>GaussSeidelMethod and GaussJacobiMethod\<close>











subsection \<open>Gauss-Seidel\<close>









subsection \<open>Gauss-Jacobi\<close>









section \<open>LagrangePolynomial\<close>












section \<open>NumericalDifferentiation\<close>











section \<open>NumericalIntegration\<close>

record integration_params =
  int_function :: string
  int_a :: jsnum
  int_b :: jsnum
  int_n :: jsnum

record integration_iteration =
  ii_i :: nat
  ii_x :: jsnum
  ii_fx :: jsnum
  ii_weight :: jsnum
  ii_contribution :: jsnum
  ii_sumPartial :: jsnum

type_synonym integration = "(integration_iteration, jsnum) numerical_method"

definition Integration_validateParams :: "integration_params \<Rightarrow> error option" where
  "Integration_validateParams params =
     (if is_blank (int_function params) then Some EmptyFunction
      else if isNaN (int_a params) \<or> isNaN (int_b params) then Some InvalidBounds
      else if js_ge (int_a params) (int_b params) then Some LowerNotBelowUpper
      else if js_not (int_n params) \<or> js_le (int_n params) (Fin 0) then Some NonPositiveSubdivisions
      else if \<not> Number_isInteger (int_n params) then Some NonIntegerSubdivisions
      else None)"

text \<open>
  \<open>parseInt\<close> of a number reads the integer at the head of its text. From \<open>10^21\<close> on the
  text is in exponent notation, so what is read is the leading digit alone. Only
  non-negative integral numbers reach it.
\<close>

function leading_digit :: "nat \<Rightarrow> nat" where
  "leading_digit n = (if n < 10 then n else leading_digit (n div 10))"
  by pat_completeness auto
termination
  by (relation "measure (\<lambda>n. n)") auto

declare leading_digit.simps [simp del]

fun parseInt :: "jsnum \<Rightarrow> nat" where
  "parseInt (Fin r) = (if r < 10 ^ 21 then nat \<lfloor>r\<rfloor> else leading_digit (nat \<lfloor>r\<rfloor>))"
| "parseInt _ = 0"

text \<open>
  The trapezoid loop \<open>for (i = 0; i <= nVal; i++)\<close>, with the running sum (\<open>acc\<close>) and the records
  pushed so far; it stops at the first evaluation that throws.
\<close>

function Integration_loop ::
  "evaluator \<Rightarrow> string \<Rightarrow> jsnum \<Rightarrow> jsnum \<Rightarrow> nat \<Rightarrow> nat \<Rightarrow> jsnum \<Rightarrow> integration_iteration list
     \<Rightarrow> error option \<times> jsnum \<times> integration_iteration list" where
  "Integration_loop ev func aVal h nVal i acc its =
     (if i \<le> nVal then
        (let x = js_add aVal (js_mul (Fin (of_nat i)) h) in
         case ev func x of
           Inl e \<Rightarrow> (Some e, acc, its)
         | Inr fx \<Rightarrow>
             (let weight = (if i = 0 \<or> i = nVal then Fin (1 / 2) else Fin 1);
                  contribution = js_mul (js_mul weight fx) h;
                  acc' = js_add acc (js_mul weight fx)
              in Integration_loop ev func aVal h nVal (i + 1) acc'
                   (its @ [\<lparr> ii_i = i, ii_x = x, ii_fx = fx, ii_weight = weight,
                              ii_contribution = contribution, ii_sumPartial = js_mul acc' h \<rparr>])))
      else (None, acc, its))"
  by pat_completeness auto
termination
  by (relation "measure (\<lambda>(ev, func, aVal, h, nVal, i, acc, its). Suc nVal - i)") auto

declare Integration_loop.simps [simp del]

function Simpson_loop ::
  "evaluator \<Rightarrow> string \<Rightarrow> jsnum \<Rightarrow> jsnum \<Rightarrow> nat \<Rightarrow> nat \<Rightarrow> jsnum \<Rightarrow> error + jsnum" where
  "Simpson_loop ev func aVal h nVal i simpsonSum =
     (if i \<le> nVal then
        (case ev func (js_add aVal (js_mul (Fin (of_nat i)) h)) of
           Inl e \<Rightarrow> Inl e
         | Inr fx \<Rightarrow>
             Simpson_loop ev func aVal h nVal (i + 1)
               (if i = 0 \<or> i = nVal then js_add simpsonSum fx
                else if i mod 2 = 1 then js_add simpsonSum (js_mul (Fin 4) fx)
                else js_add simpsonSum (js_mul (Fin 2) fx)))
      else Inr simpsonSum)"
  by pat_completeness auto
termination
  by (relation "measure (\<lambda>(ev, func, aVal, h, nVal, i, simpsonSum). Suc nVal - i)") auto

declare Simpson_loop.simps [simp del]

definition Integration_calculate ::
  "evaluator \<Rightarrow> integration_params \<Rightarrow> integration \<Rightarrow> (integration_iteration, jsnum) run" where
  "Integration_calculate ev params this =
     (case Integration_validateParams params of
        Some e \<Rightarrow> throws e [] this
      | None \<Rightarrow>
          (let func = int_function params;
               aVal = parseFloat (int_a params);
               bVal = parseFloat (int_b params);
               nVal = parseInt (int_n params);
               h = js_div (js_sub bVal aVal) (Fin (of_nat nVal))
           in case Integration_loop ev func aVal h nVal 0 (Fin 0) [] of
                (Some e, acc, its) \<Rightarrow> throws e [] (this\<lparr> iterations := its \<rparr>)
              | (None, acc, its) \<Rightarrow>
                  (let this' = this\<lparr> iterations := its, result := Some (js_mul acc h) \<rparr>
                   in if nVal mod 2 = 0 then
                        (case Simpson_loop ev func aVal h nVal 0 (Fin 0) of
                           Inl e \<Rightarrow> throws e [] this'
                         | Inr simpsonSum \<Rightarrow>
                             (let simpsonResult = js_mul (js_div h (Fin 3)) simpsonSum
                              in returns [] this'))
                      else returns [] this')))"


section \<open>The expression language of the specification\<close>

text \<open>
  The texts the specification admits: numbers, the operators \<open>+ - * / ^\<close> with
  parentheses, the six function names, the variable \<open>x\<close> and blanks. The counter is the
  number of characters of the current name still to be passed over.
\<close>

definition starts_with :: "string \<Rightarrow> string \<Rightarrow> bool" where
  "starts_with name s = (take (length name) s = name)"

fun admitted_text :: "nat \<Rightarrow> string \<Rightarrow> bool" where
  "admitted_text k [] = True"
| "admitted_text (Suc k) (c # cs) = admitted_text k cs"
| "admitted_text 0 (c # cs) =
     (if c \<in> set ''0123456789.+-*/^()x '' then admitted_text 0 cs
      else if starts_with ''sqrt'' (c # cs) then admitted_text (Suc (Suc (Suc 0))) cs
      else if starts_with ''sin'' (c # cs) \<or> starts_with ''cos'' (c # cs) \<or> starts_with ''tan'' (c # cs)
              \<or> starts_with ''log'' (c # cs) \<or> starts_with ''exp'' (c # cs)
      then admitted_text (Suc (Suc 0)) cs
      else False)"

text \<open>A well-formed expression closes every parenthesis it opens, and no other.\<close>

fun balanced :: "nat \<Rightarrow> string \<Rightarrow> bool" where
  "balanced depth [] = (depth = 0)"
| "balanced depth (c # cs) =
     (if c = CHR ''('' then balanced (Suc depth) cs
      else if c = CHR '')'' then (case depth of 0 \<Rightarrow> False | Suc d \<Rightarrow> balanced d cs)
      else balanced depth cs)"

section \<open>The formulas of the specification\<close>

text \<open>
  The composite trapezoid value over \<open>n\<close> equal subdivisions of \<open>[a, b]\<close>:
  \<open>h * \<Sum> weight_i * f(x_i)\<close> with \<open>h = (b - a) / n\<close>, weight one half at the two ends.
\<close>

definition composite_trapezoid :: "(real \<Rightarrow> real) \<Rightarrow> real \<Rightarrow> real \<Rightarrow> nat \<Rightarrow> real" where
  "composite_trapezoid f a b n =
     (let h = (b - a) / real n
      in h * (\<Sum>i = 0..n. (if i = 0 \<or> i = n then 1 / 2 else 1) * f (a + real i * h)))"







section \<open>The expression evaluator\<close>

lemma agrees_evaluate:
  assumes "agrees_at eng func x"
    and "number_text x = Some t"
    and "run_body (function_body (rewrite t func)) = Some c"
  shows "evaluateFunction eng func x = (case c of Normal v \<Rightarrow> Inr v | Throw \<Rightarrow> Inl InvalidFunction)"
  using assms by (simp add: agrees_at_def evaluateFunction_def)

lemma reference_engine_agrees:
  assumes "number_text x = Some t"
    and "run_body (function_body (rewrite t func)) = Some c"
  shows "agrees_at reference_engine func x"
  using assms by (simp add: agrees_at_def reference_engine_def)

lemmas fragment_eval =
  digits_of.simps digit_char_def six_places_def
  positive_text_def is_digit_def is_ident_def cons_token_def next_is_def literal_end_def
  member_names_def close_group_def no_call_def apply1_def apply2_def head_is_def top_level_def
  call1_def rewrite_def replace_x_def function_body_def return_prefix_def run_body_def js_sub_def

lemma run_quadratic:
  "run_body (function_body (rewrite ''2'' ''x^2+3*x-2'')) = Some (Normal (Fin 8))"
  by (simp add: fragment_eval)

lemma run_sine:
  "run_body (function_body (rewrite ''0'' ''sin(x)'')) = Some (Normal (Fin 0))"
  by (simp add: fragment_eval)

lemma run_dangling_operator:
  "run_body (function_body (rewrite ''2'' ''x^2+3*x-'')) = Some Throw"
  by (simp add: fragment_eval)

lemma run_unclosed_parenthesis:
  "run_body (function_body (rewrite ''2'' ''(x+1'')) = Some Throw"
  by (simp add: fragment_eval)

text \<open>
  C5. The two values hold, but the claim that evaluating a malformed expression fails does
  not: \<open>x)+(x\<close> consists of admitted characters and its parentheses do not match, yet
  inside the parentheses of \<open>return (...)\<close> it reads \<open>((2))+((2))\<close> at \<open>x = 2\<close>, and the
  evaluator returns 4.
\<close>

theorem evaluator_accepts_unbalanced_text:
  "admitted_text 0 ''x)+(x'' \<and> \<not> balanced 0 ''x)+(x'' \<and>
   evaluateFunction reference_engine ''x)+(x'' (Fin 2) = Inr (Fin 4)"
  by (simp add: starts_with_def evaluateFunction_def reference_engine_def fragment_eval)

text \<open>
  C5, as amended. On every engine that agrees with the fragment at the input, \<open>x^2+3*x-2\<close> at 2 is
  exactly 8 (the rewritten text is \<open>Math.pow(2,2)+3*(2)-2\<close>, all of whose intermediate
  values are small integers), \<open>sin(x)\<close> at 0 is 0 (the text is \<open>Math.sin((0))\<close>), and the
  malformed texts \<open>x^2+3*x-\<close> and \<open>(x+1\<close> fail with the evaluator's error. On any engine
  at all, a text the engine throws on yields that error and no value.
\<close>

theorem evaluator_test_values:
  "(agrees_at eng ''x^2+3*x-2'' (Fin 2) \<longrightarrow>
      evaluateFunction eng ''x^2+3*x-2'' (Fin 2) = Inr (Fin 8)) \<and>
   (agrees_at eng ''sin(x)'' (Fin 0) \<longrightarrow>
      evaluateFunction eng ''sin(x)'' (Fin 0) = Inr (Fin 0)) \<and>
   (agrees_at eng ''x^2+3*x-'' (Fin 2) \<longrightarrow>
      evaluateFunction eng ''x^2+3*x-'' (Fin 2) = Inl InvalidFunction) \<and>
   (agrees_at eng ''(x+1'' (Fin 2) \<longrightarrow>
      evaluateFunction eng ''(x+1'' (Fin 2) = Inl InvalidFunction) \<and>
   (Function_call eng (function_body (rewrite (ToString eng x) func)) = Throw \<longrightarrow>
      evaluateFunction eng func x = Inl InvalidFunction)"
proof -
  have two: "number_text (Fin 2) = Some ''2''" and zero: "number_text (Fin 0) = Some ''0''"
    by (simp_all add: fragment_eval)
  have "evaluateFunction eng ''x^2+3*x-2'' (Fin 2) = Inr (Fin 8)"
    if "agrees_at eng ''x^2+3*x-2'' (Fin 2)"
    using agrees_evaluate [OF that two run_quadratic] by simp
  moreover have "evaluateFunction eng ''sin(x)'' (Fin 0) = Inr (Fin 0)"
    if "agrees_at eng ''sin(x)'' (Fin 0)"
    using agrees_evaluate [OF that zero run_sine] by simp
  moreover have "evaluateFunction eng ''x^2+3*x-'' (Fin 2) = Inl InvalidFunction"
    if "agrees_at eng ''x^2+3*x-'' (Fin 2)"
    using agrees_evaluate [OF that two run_dangling_operator] by simp
  moreover have "evaluateFunction eng ''(x+1'' (Fin 2) = Inl InvalidFunction"
    if "agrees_at eng ''(x+1'' (Fin 2)"
    using agrees_evaluate [OF that two run_unclosed_parenthesis] by simp
  moreover have "evaluateFunction eng func x = Inl InvalidFunction"
    if "Function_call eng (function_body (rewrite (ToString eng x) func)) = Throw"
    using that by (simp add: evaluateFunction_def)
  ultimately show ?thesis
    by blast
qed

theorem evaluator_test_values_witness:
  "agrees_at reference_engine ''x^2+3*x-2'' (Fin 2) \<and>
   evaluateFunction reference_engine ''x^2+3*x-2'' (Fin 2) = Inr (Fin 8) \<and>
   agrees_at reference_engine ''sin(x)'' (Fin 0) \<and>
   evaluateFunction reference_engine ''sin(x)'' (Fin 0) = Inr (Fin 0) \<and>
   agrees_at reference_engine ''x^2+3*x-'' (Fin 2) \<and>
   evaluateFunction reference_engine ''x^2+3*x-'' (Fin 2) = Inl InvalidFunction \<and>
   agrees_at reference_engine ''(x+1'' (Fin 2) \<and>
   evaluateFunction reference_engine ''(x+1'' (Fin 2) = Inl InvalidFunction \<and>
   Function_call reference_engine
     (function_body (rewrite (ToString reference_engine (Fin 2)) ''x+'')) = Throw \<and>
   evaluateFunction reference_engine ''x+'' (Fin 2) = Inl InvalidFunction"
proof -
  have two: "number_text (Fin 2) = Some ''2''" and zero: "number_text (Fin 0) = Some ''0''"
    by (simp_all add: fragment_eval)
  have "Function_call reference_engine
          (function_body (rewrite (ToString reference_engine (Fin 2)) ''x+'')) = Throw"
    by (simp add: reference_engine_def fragment_eval)
  then show ?thesis
    using evaluator_test_values [of reference_engine "Fin 2" "''x+''"]
      reference_engine_agrees [OF two run_quadratic]
      reference_engine_agrees [OF zero run_sine]
      reference_engine_agrees [OF two run_dangling_operator]
      reference_engine_agrees [OF two run_unclosed_parenthesis]
    by blast
qed

text \<open>
  C1. The claim that every text outside the admitted language is rejected fails:
  \<open>Math.abs(x)\<close> is not an admitted text, and the evaluator hands it to the engine, which
  calls \<open>Math.abs\<close> and returns 3 at \<open>x = -3\<close>.
\<close>

theorem evaluator_runs_unlisted_function:
  "\<not> admitted_text 0 ''Math.abs(x)'' \<and>
   evaluateFunction reference_engine ''Math.abs(x)'' (Fin (- 3)) = Inr (Fin 3)"
  by (simp add: starts_with_def evaluateFunction_def reference_engine_def fragment_eval)

text \<open>
  C1, as amended. The evaluator has no check of its own: it fails exactly when the engine
  throws on the rewritten text, and otherwise returns what the engine returns.
\<close>

theorem evaluator_rejects_what_engine_rejects:
  "(evaluateFunction eng func x = Inl InvalidFunction) =
     (Function_call eng (function_body (rewrite (ToString eng x) func)) = Throw) \<and>
   (evaluateFunction eng func x = Inr v) =
     (Function_call eng (function_body (rewrite (ToString eng x) func)) = Normal v) \<and>
   (\<forall>e. evaluateFunction eng func x = Inl e \<longrightarrow> e = InvalidFunction)"
  by (simp add: evaluateFunction_def split: completion.split)

theorem evaluator_rejects_what_engine_rejects_witness:
  "evaluateFunction reference_engine ''x+'' (Fin 2) = Inl InvalidFunction \<and>
   Function_call reference_engine
     (function_body (rewrite (ToString reference_engine (Fin 2)) ''x+'')) = Throw"
proof -
  have "Function_call reference_engine
          (function_body (rewrite (ToString reference_engine (Fin 2)) ''x+'')) = Throw"
    by (simp add: reference_engine_def fragment_eval)
  then show ?thesis
    using evaluator_rejects_what_engine_rejects [of reference_engine "''x+''" "Fin 2"]
    by simp
qed

section \<open>Divergence in Newton-Raphson and Fixed-Point\<close>








lemma square_minus_two_at_1:
  "evaluateFunction reference_engine ''x^2-2'' (Fin 1) = Inr (Fin (- 1))"
  by (simp add: evaluateFunction_def reference_engine_def fragment_eval)

lemma square_minus_two_at_2:
  "evaluateFunction reference_engine ''x^2-2'' (Fin 2) = Inr (Fin 2)"
  by (simp add: evaluateFunction_def reference_engine_def fragment_eval)

lemma square_minus_two_at_midpoint:
  "evaluateFunction reference_engine ''x^2-2'' (Fin (3 / 2)) = Inr (Fin (1 / 4))"
  by (simp add: evaluateFunction_def reference_engine_def fragment_eval power2_eq_square)

section \<open>Bisection\<close>

text \<open>
  C2. Bisection on \<open>f(x) = x^2 - 2\<close> with \<open>a = 1\<close>, \<open>b = 2\<close>, tolerance \<open>10^-6\<close> and 50
  iterations is claimed to end with the root \<open>1.41421356...\<close>, the bracket narrowed at every
  step. The run records the first midpoint \<open>1.5\<close> with \<open>f(1.5) = 0.25\<close>, does not meet the
  tolerance, takes the branch \<open>f(a) f(c) < 0\<close> and throws at the assignment \<open>fb = fc\<close> to
  the constant \<open>fb\<close>: no result is produced and no bracket is narrowed.
\<close>

theorem bisection_sqrt2_throws:
  "Bisection_calculate (evaluateFunction reference_engine)
     \<lparr> bis_function = ''x^2-2'', bis_a = Fin 1, bis_b = Fin 2,
       bis_tolerance = Fin (1 / 10 ^ 6), bis_maxIterations = 50 \<rparr> fresh
   = \<lparr> thrown = Some ConstAssignment, warnings = [],
       final = \<lparr> iterations =
                   [\<lparr> bi_iteration = 1, bi_a = Fin 1, bi_b = Fin 2, bi_c = Fin (3 / 2),
                      bi_fc = Fin (1 / 4), bi_error = Fin (1 / 2) \<rparr>],
                 result = None \<rparr> \<rparr>"
  by (simp add: Bisection_calculate_def Bisection_validateParams_def is_blank_def isNaN_def
        js_ge_def js_le_def js_gt_def parseFloat_def square_minus_two_at_1 square_minus_two_at_2
        square_minus_two_at_midpoint Bisection_loop.simps assign_const_def throws_def fresh_def
        js_sub_def)

section \<open>Validation of the bounds\<close>



section \<open>Repeated runs\<close>











section \<open>Validation of linear systems\<close>











section \<open>Lagrange interpolation outside the interval\<close>











section \<open>Integration\<close>

lemma integration_loop_finite:
  assumes "\<forall>k \<le> n. ev func (Fin (a + real k * h)) = Inr (Fin (f k))"
    and "d = Suc n - i"
  shows "fst (Integration_loop ev func (Fin a) (Fin h) n i (Fin s) its) = None \<and>
         fst (snd (Integration_loop ev func (Fin a) (Fin h) n i (Fin s) its))
           = Fin (s + (\<Sum>k = i..n. (if k = 0 \<or> k = n then 1 / 2 else 1) * f k))"
  using assms(2)
proof (induction d arbitrary: i s its)
  case 0
  then have "n < i"
    by simp
  then show ?case
    by (simp add: Integration_loop.simps [of ev func "Fin a" "Fin h" n i "Fin s" its])
next
  case (Suc d)
  then have i: "i \<le> n" and d: "d = Suc n - (i + 1)"
    by simp_all
  from i assms(1) have at_i: "ev func (Fin (a + real i * h)) = Inr (Fin (f i))"
    by simp
  from i have split: "(\<Sum>k = i..n. (if k = 0 \<or> k = n then 1 / 2 else 1) * f k)
      = (if i = 0 \<or> i = n then 1 / 2 else 1) * f i
        + (\<Sum>k = i + 1..n. (if k = 0 \<or> k = n then 1 / 2 else 1) * f k)"
    by (simp add: sum.atLeast_Suc_atMost)
  show ?case
    using i at_i Suc.IH [OF d]
    by (simp add: Integration_loop.simps [of ev func "Fin a" "Fin h" n i "Fin s" its] Let_def split
          add.assoc del: sum.op_ivl_Suc)
qed

lemma simpson_loop_returns:
  assumes "\<forall>k \<le> n. ev func (Fin (a + real k * h)) = Inr (Fin (f k))"
    and "d = Suc n - i"
  shows "\<exists>v. Simpson_loop ev func (Fin a) (Fin h) n i acc = Inr v"
  using assms(2)
proof (induction d arbitrary: i acc)
  case 0
  then have "n < i"
    by simp
  then show ?case
    by (simp add: Simpson_loop.simps [of ev func "Fin a" "Fin h" n i acc])
next
  case (Suc d)
  then have i: "i \<le> n" and d: "d = Suc n - (i + 1)"
    by simp_all
  from i assms(1) have at_i: "ev func (Fin (a + real i * h)) = Inr (Fin (f i))"
    by simp
  show ?case
    using i at_i Suc.IH [OF d]
    by (simp add: Simpson_loop.simps [of ev func "Fin a" "Fin h" n i acc])
qed

text \<open>
  Below \<open>10^21\<close> subdivisions the result is the composite trapezoid value, for finite
  bounds and a function whose values at the nodes are finite; the Simpson sum, computed when
  \<open>n\<close> is even, changes nothing.
\<close>

lemma integration_is_trapezoid:
  assumes valid: "Integration_validateParams p = None"
    and bounds: "int_a p = Fin a" "int_b p = Fin b"
    and n: "int_n p = Fin (real n)" "n < 10 ^ 21"
    and nodes: "\<forall>k \<le> n. ev (int_function p) (Fin (a + real k * ((b - a) / real n)))
                  = Inr (Fin (f (a + real k * ((b - a) / real n))))"
  shows "thrown (Integration_calculate ev p this) = None \<and>
         warnings (Integration_calculate ev p this) = [] \<and>
         result (final (Integration_calculate ev p this)) = Some (Fin (composite_trapezoid f a b n))"
proof -
  from n have parse: "parseInt (int_n p) = n"
    using of_nat_less_iff [of n "10 ^ 21", where ?'a = real] by simp
  from valid n have pos: "0 < n"
    by (auto simp: Integration_validateParams_def js_not_def split: if_splits)
  let ?h = "(b - a) / real n"
  let ?run = "Integration_loop ev (int_function p) (Fin a) (Fin ?h) n 0 (Fin 0) []"
  from integration_loop_finite
         [where f = "\<lambda>k. f (a + real k * ?h)" and ev = ev and func = "int_function p" and a = a
            and h = ?h and n = n and d = "Suc n" and i = 0 and s = 0 and its = "[]"] nodes
  have loop: "fst ?run = None"
    "fst (snd ?run) = Fin (\<Sum>k = 0..n. (if k = 0 \<or> k = n then 1 / 2 else 1) * f (a + real k * ?h))"
    by simp_all
  from simpson_loop_returns
         [where f = "\<lambda>k. f (a + real k * ?h)" and ev = ev and func = "int_function p" and a = a
            and h = ?h and n = n and d = "Suc n" and i = 0 and acc = "Fin 0"] nodes
  obtain v where simpson: "Simpson_loop ev (int_function p) (Fin a) (Fin ?h) n 0 (Fin 0) = Inr v"
    by auto
  obtain e t its where run: "?run = (e, t, its)"
    by (cases ?run) auto
  with loop have e: "e = None"
    and t: "t = Fin (\<Sum>k = 0..n. (if k = 0 \<or> k = n then 1 / 2 else 1) * f (a + real k * ?h))"
    by simp_all
  from pos have h: "js_div (js_sub (Fin b) (Fin a)) (Fin (real n)) = Fin ?h"
    by (simp add: js_sub_def)
  show ?thesis
    using valid bounds parse h run e t simpson
    by (simp add: Integration_calculate_def parseFloat_def Let_def returns_def
          composite_trapezoid_def mult.commute)
qed

lemma sum_of_squares: "(\<Sum>i = 0..n. (real i)\<^sup>2) = real n * (real n + 1) * (2 * real n + 1) / 6"
  by (induction n) (simp_all add: power2_eq_square field_simps)

lemma weighted_sum:
  assumes "0 < (n::nat)"
  shows "(\<Sum>i = 0..n. (if i = 0 \<or> i = n then 1 / 2 else 1) * g i)
         = (\<Sum>i = 0..n. g i) - g 0 / 2 - g n / (2::real)"
proof -
  have "(if i = 0 \<or> i = n then 1 / 2 else 1) * g i
        = g i - (if i = 0 then g 0 / 2 else 0) - (if i = n then g n / 2 else 0)" for i
    using assms by auto
  then have "(\<Sum>i = 0..n. (if i = 0 \<or> i = n then 1 / 2 else 1) * g i)
        = (\<Sum>i = 0..n. g i - (if i = 0 then g 0 / 2 else 0) - (if i = n then g n / 2 else 0))"
    by simp
  also have "\<dots> = (\<Sum>i = 0..n. g i) - g 0 / 2 - g n / 2"
    by (simp add: sum_subtractf)
  finally show ?thesis .
qed

lemma trapezoid_of_square:
  assumes "0 < n"
  shows "composite_trapezoid (\<lambda>x. x\<^sup>2) 0 1 n = 1 / 3 + 1 / (6 * (real n)\<^sup>2)"
proof -
  from assms have n: "real n \<noteq> 0"
    by simp
  have squares: "(\<Sum>i = 0..n. (real i * (1 / real n))\<^sup>2)
      = real n * (real n + 1) * (2 * real n + 1) / 6 / (real n)\<^sup>2"
  proof -
    have "(\<Sum>i = 0..n. (real i * (1 / real n))\<^sup>2) = (\<Sum>i = 0..n. (real i)\<^sup>2) / (real n)\<^sup>2"
      by (simp add: power_mult_distrib power_divide sum_divide_distrib)
    also have "\<dots> = real n * (real n + 1) * (2 * real n + 1) / 6 / (real n)\<^sup>2"
      by (simp only: sum_of_squares)
    finally show ?thesis .
  qed
  have "composite_trapezoid (\<lambda>x. x\<^sup>2) 0 1 n
      = 1 / real n * ((\<Sum>i = 0..n. (real i * (1 / real n))\<^sup>2) - (real n * (1 / real n))\<^sup>2 / 2)"
    using weighted_sum [OF assms, of "\<lambda>i. (real i * (1 / real n))\<^sup>2"]
    by (simp add: composite_trapezoid_def)
  also have "\<dots> = 1 / real n * (real n * (real n + 1) * (2 * real n + 1) / 6 / (real n)\<^sup>2 - 1 / 2)"
    unfolding squares using n by simp
  also have "\<dots> = 1 / 3 + 1 / (6 * (real n)\<^sup>2)"
    using n by (simp add: power2_eq_square field_simps)
  finally show ?thesis .
qed

lemma square_at_0_and_1:
  "evaluateFunction reference_engine ''x^2'' (Fin 0) = Inr (Fin 0)"
  "evaluateFunction reference_engine ''x^2'' (Fin 1) = Inr (Fin 1)"
  by (simp_all add: evaluateFunction_def reference_engine_def fragment_eval)

lemma leading_digit_of_1e21: "leading_digit 1000000000000000000000 = 1"
  by (simp add: leading_digit.simps)

text \<open>
  C7. The claim fails for a number of subdivisions from \<open>10^21\<close> on, which the validation
  accepts: \<open>parseInt\<close> then reads the leading digit of \<open>n\<close>. For \<open>f(x) = x^2\<close> on \<open>[0, 1]\<close>
  with \<open>n = 10^21\<close> the run uses one subdivision, records two points and returns \<open>1/2\<close>,
  where the composite trapezoid value for that \<open>n\<close> is \<open>1/3 + 1/(6 n^2)\<close>.
\<close>

theorem integration_reads_leading_digit:
  "Integration_calculate (evaluateFunction reference_engine)
     \<lparr> int_function = ''x^2'', int_a = Fin 0, int_b = Fin 1,
       int_n = Fin 1000000000000000000000 \<rparr> fresh
   = \<lparr> thrown = None, warnings = [],
       final = \<lparr> iterations =
                   [\<lparr> ii_i = 0, ii_x = Fin 0, ii_fx = Fin 0, ii_weight = Fin (1 / 2),
                      ii_contribution = Fin 0, ii_sumPartial = Fin 0 \<rparr>,
                    \<lparr> ii_i = 1, ii_x = Fin 1, ii_fx = Fin 1, ii_weight = Fin (1 / 2),
                      ii_contribution = Fin (1 / 2), ii_sumPartial = Fin (1 / 2) \<rparr>],
                 result = Some (Fin (1 / 2)) \<rparr> \<rparr> \<and>
   composite_trapezoid (\<lambda>x. x\<^sup>2) 0 1 1000000000000000000000
     = 1 / 3 + 1 / (6 * 1000000000000000000000\<^sup>2)"
proof -
  have loop: "Integration_loop (evaluateFunction reference_engine) ''x^2'' (Fin 0) (Fin 1) 1 0 (Fin 0) []
        = (None, Fin (1 / 2),
           [\<lparr> ii_i = 0, ii_x = Fin 0, ii_fx = Fin 0, ii_weight = Fin (1 / 2),
              ii_contribution = Fin 0, ii_sumPartial = Fin 0 \<rparr>,
            \<lparr> ii_i = 1, ii_x = Fin 1, ii_fx = Fin 1, ii_weight = Fin (1 / 2),
              ii_contribution = Fin (1 / 2), ii_sumPartial = Fin (1 / 2) \<rparr>])"
    by (simp add: Integration_loop.simps square_at_0_and_1 Let_def)
  have code: "Integration_calculate (evaluateFunction reference_engine)
     \<lparr> int_function = ''x^2'', int_a = Fin 0, int_b = Fin 1,
       int_n = Fin 1000000000000000000000 \<rparr> fresh
   = \<lparr> thrown = None, warnings = [],
       final = \<lparr> iterations =
                   [\<lparr> ii_i = 0, ii_x = Fin 0, ii_fx = Fin 0, ii_weight = Fin (1 / 2),
                      ii_contribution = Fin 0, ii_sumPartial = Fin 0 \<rparr>,
                    \<lparr> ii_i = 1, ii_x = Fin 1, ii_fx = Fin 1, ii_weight = Fin (1 / 2),
                      ii_contribution = Fin (1 / 2), ii_sumPartial = Fin (1 / 2) \<rparr>],
                 result = Some (Fin (1 / 2)) \<rparr> \<rparr>"
    using loop
    by (simp add: Integration_calculate_def Integration_validateParams_def is_blank_def isNaN_def
          js_ge_def js_le_def js_not_def parseFloat_def leading_digit_of_1e21 js_sub_def
          returns_def fresh_def Let_def)
  have formula: "composite_trapezoid (\<lambda>x. x\<^sup>2) 0 1 1000000000000000000000
     = 1 / 3 + 1 / (6 * 1000000000000000000000\<^sup>2)"
    using trapezoid_of_square [of 1000000000000000000000] by simp
  from code formula show ?thesis
    by (rule conjI)
qed

section \<open>The Jacobi and Gauss-Seidel steps\<close>

















end
